theory Spec2Isabelle
  imports Complex_Main
begin

section \<open>The notebook kde-1d.ipynb: one-dimensional kernel density estimation\<close>

text \<open>
  The repository is one Python 2 notebook,
  \<^verbatim>\<open>_posts/scikit/1D-kernel-density-estimation/kde-1d.ipynb\<close>. Its code cells sample a
  Gaussian mixture with numpy, fit scikit-learn's \<^verbatim>\<open>KernelDensity\<close>, evaluate it on a grid
  and hand the arrays to plotly. The cells are embedded below as functions over an explicit
  session state; the libraries they call are embedded by their documented contracts, and
  the two parts of them that are algorithms of their own (the Mersenne Twister behind
  \<^verbatim>\<open>np.random\<close> and the tree-based density estimate behind \<^verbatim>\<open>score_samples\<close>) are
  parameters of the model, so that every theorem holds for whatever they compute.

  Array elements, densities and plot coordinates are floating-point numbers in the
  notebook and real numbers here. The one place where a floating-point number becomes an
  integer, the sample counts \<^verbatim>\<open>0.3 * N\<close> and \<^verbatim>\<open>0.7 * N\<close>, is modelled with
  IEEE 754 binary64 arithmetic written out.
\<close>

subsection \<open>Python: exceptions, integers as text, \<^verbatim>\<open>str.format\<close>\<close>

datatype error =
    NameError
  | NegativeDimensions
  | BandwidthNotPositive
  | InvalidKernel
  | RowOutOfRange
  | ColOutOfRange
  | CellOutOfRange
  | NoSubplotGrid

definition bindE :: "error + 'a \<Rightarrow> ('a \<Rightarrow> error + 'b) \<Rightarrow> error + 'b" where
  "bindE m f = (case m of Inl e \<Rightarrow> Inl e | Inr x \<Rightarrow> f x)"

text \<open>\<^verbatim>\<open>str(n)\<close> for a Python integer: its decimal digits, with a minus sign.\<close>

fun str_nat :: "nat \<Rightarrow> string" where
  "str_nat n =
     (if n < 10 then [''0123456789'' ! n]
      else str_nat (n div 10) @ [''0123456789'' ! (n mod 10)])"

definition str_int :: "int \<Rightarrow> string" where
  "str_int i = (if i < 0 then CHR ''-'' # str_nat (nat (- i)) else str_nat (nat i))"

text \<open>
  \<^verbatim>\<open>template.format(a)\<close> for a template whose only replacement field is \<^verbatim>\<open>{0}\<close>, as
  both templates of the notebook are; \<open>a\<close> is the argument already converted to text.
\<close>

fun format0 :: "string \<Rightarrow> string \<Rightarrow> string" where
  "format0 [] a = []"
| "format0 (c # cs) a =
     (if take 3 (c # cs) = ''{0}'' then a @ format0 (drop 2 cs) a else c # format0 cs a)"

text \<open>\<^verbatim>\<open>range(start, stop, step)\<close> for a positive step, and \<^verbatim>\<open>enumerate\<close>.\<close>

definition py_range :: "int \<Rightarrow> int \<Rightarrow> nat \<Rightarrow> int list" where
  "py_range start stop step =
     map (\<lambda>k. start + int (k * step)) [0 ..< (nat (stop - start) + step - 1) div step]"

definition enumerate_py :: "'a list \<Rightarrow> (int \<times> 'a) list" where
  "enumerate_py xs = zip (map int [0 ..< length xs]) xs"

subsection \<open>Python floats: IEEE 754 binary64, round to nearest, ties to even\<close>

text \<open>
  \<open>Double m e\<close> is the number \<open>m * 2 ^ e\<close>. \<open>round_double p q\<close> is the double nearest
  to the fraction \<open>p / q\<close> (for \<open>q > 0\<close>) with a 53-bit significand, a tie going to the
  even significand. The exponent is not bounded, so the model is binary64 wherever the
  result is a normal number (between \<open>2^-1022\<close> and \<open>2^1024\<close> in magnitude) or zero;
  the notebook forms no other.
\<close>

datatype double = Double (mant: int) (expo: int)

fun bit_length :: "int \<Rightarrow> nat" where
  "bit_length n = (if n \<le> 0 then 0 else Suc (bit_length (n div 2)))"

definition round_half_even :: "int \<Rightarrow> int \<Rightarrow> int" where
  "round_half_even p q =
     (let f = p div q; r = p mod q
      in if 2 * r < q then f
         else if q < 2 * r then f + 1
         else if even f then f else f + 1)"

text \<open>The fraction \<open>(p / q) / 2 ^ e\<close>, as numerator and denominator.\<close>

definition scaled :: "int \<Rightarrow> int \<Rightarrow> int \<Rightarrow> int \<times> int" where
  "scaled p q e = (if e < 0 then (p * 2 ^ nat (- e), q) else (p, q * 2 ^ nat e))"

definition round_double :: "int \<Rightarrow> int \<Rightarrow> double" where
  "round_double p q =
     (if p = 0 then Double 0 0
      else
        let a = \<bar>p\<bar>;
            e0 = int (bit_length a) - int (bit_length q) - 53;
            e = (case scaled a q e0 of (n, d) \<Rightarrow> if 2 ^ 53 \<le> n div d then e0 + 1 else e0);
            m = (case scaled a q e of (n, d) \<Rightarrow> round_half_even n d)
        in if m = 2 ^ 53 then Double (sgn p * 2 ^ 52) (e + 1) else Double (sgn p * m) e)"

text \<open>
  A decimal literal such as \<^verbatim>\<open>0.3\<close> denotes the double nearest to 3/10; an integer
  operand of a float operation is converted to the nearest double first; the product of
  two doubles is the exact product, rounded.
\<close>

definition float_lit :: "int \<Rightarrow> int \<Rightarrow> double" where
  "float_lit p q = round_double p q"

definition float_of_int :: "int \<Rightarrow> double" where
  "float_of_int n = round_double n 1"

definition float_mul :: "double \<Rightarrow> double \<Rightarrow> double" where
  "float_mul a b =
     (case scaled (mant a * mant b) 1 (- (expo a + expo b)) of (p, q) \<Rightarrow> round_double p q)"

text \<open>\<^verbatim>\<open>int(x)\<close> for a float: truncation towards zero.\<close>

definition int_of_float :: "double \<Rightarrow> int" where
  "int_of_float d =
     (if 0 \<le> expo d then mant d * 2 ^ nat (expo d)
      else sgn (mant d) * (\<bar>mant d\<bar> div 2 ^ nat (- expo d)))"

subsection \<open>numpy: arrays, \<^verbatim>\<open>linspace\<close>, \<^verbatim>\<open>exp\<close>, the random generator\<close>

text \<open>
  A one-dimensional array is a list. Every two-dimensional array of the notebook has one
  column (\<^verbatim>\<open>a[:, np.newaxis]\<close>, \<^verbatim>\<open>a[:, None]\<close>, \<^verbatim>\<open>np.zeros((1, 1))\<close>):
  \<open>Column xs\<close> is the array of shape \<open>(length xs, 1)\<close> whose rows are the elements of
  \<open>xs\<close>.
\<close>

datatype column = Column (entries: "real list")

definition newaxis :: "real list \<Rightarrow> column" where
  "newaxis xs = Column xs"

text \<open>\<^verbatim>\<open>A[:, 0]\<close> and \<^verbatim>\<open>A.shape[0]\<close>.\<close>

definition column0 :: "column \<Rightarrow> real list" where
  "column0 A = entries A"

definition shape0 :: "column \<Rightarrow> int" where
  "shape0 A = int (length (entries A))"

definition zeros_1_1 :: column where
  "zeros_1_1 = Column [0]"

text \<open>
  \<^verbatim>\<open>np.linspace(start, stop, num)\<close>: \<open>num\<close> points, the first at \<open>start\<close>, spaced
  \<open>(stop - start) / (num - 1)\<close> apart.
\<close>

definition linspace :: "real \<Rightarrow> real \<Rightarrow> nat \<Rightarrow> real list" where
  "linspace start stop num =
     map (\<lambda>i. start + real i * ((stop - start) / real (num - 1))) [0 ..< num]"

text \<open>
  \<^verbatim>\<open>score_samples\<close> returns logarithms of densities, which are \<open>-inf\<close> where the
  density is zero (outside the support of a compact kernel); \<^verbatim>\<open>np.exp\<close> maps
  \<open>-inf\<close> to 0.
\<close>

datatype logval = NegInf | Finite real

fun np_exp :: "logval \<Rightarrow> real" where
  "np_exp NegInf = 0"
| "np_exp (Finite r) = exp r"

text \<open>
  The global generator of \<^verbatim>\<open>np.random\<close>. Its state type \<open>'g\<close> and its three
  primitives are parameters: \<open>rk_seed n\<close> is the state after \<^verbatim>\<open>np.random.seed(n)\<close>
  (it does not depend on the state before), \<open>rk_gauss\<close> draws one standard normal
  number and \<open>rk_double\<close> one uniform number of \<open>[0, 1)\<close>, each returning the next
  state.
\<close>

record 'g mtrand =
  rk_seed :: "nat \<Rightarrow> 'g"
  rk_gauss :: "'g \<Rightarrow> real \<times> 'g"
  rk_double :: "'g \<Rightarrow> real \<times> 'g"

fun draws :: "('g \<Rightarrow> real \<times> 'g) \<Rightarrow> nat \<Rightarrow> 'g \<Rightarrow> real list \<times> 'g" where
  "draws f 0 g = ([], g)"
| "draws f (Suc n) g =
     (case f g of (z, g1) \<Rightarrow> (case draws f n g1 of (zs, g2) \<Rightarrow> (z # zs, g2)))"

text \<open>
  \<^verbatim>\<open>np.random.normal(loc, scale, size)\<close> with a float \<open>sz\<close> for the size: the numpy of the
  notebook converts it with \<^verbatim>\<open>int\<close> (after the VisibleDeprecationWarning that the
  notebook's output shows), refuses a negative size, and fills the array with
  \<open>loc + scale * z\<close> for successive standard normal draws \<open>z\<close>.
\<close>

definition normal_n :: "'g mtrand \<Rightarrow> real \<Rightarrow> real \<Rightarrow> nat \<Rightarrow> 'g \<Rightarrow> real list \<times> 'g" where
  "normal_n R loc scale n g =
     (case draws (rk_gauss R) n g of (zs, g') \<Rightarrow> (map (\<lambda>z. loc + scale * z) zs, g'))"

definition random_normal ::
  "'g mtrand \<Rightarrow> real \<Rightarrow> real \<Rightarrow> double \<Rightarrow> 'g \<Rightarrow> error + (real list \<times> 'g)" where
  "random_normal R loc scale sz g =
     (let n = int_of_float sz
      in if n < 0 then Inl NegativeDimensions else Inr (normal_n R loc scale (nat n) g))"

text \<open>\<^verbatim>\<open>np.random.random(size)\<close> with an integer size.\<close>

definition random_random :: "'g mtrand \<Rightarrow> int \<Rightarrow> 'g \<Rightarrow> error + (real list \<times> 'g)" where
  "random_random R n g =
     (if n < 0 then Inl NegativeDimensions else Inr (draws (rk_double R) (nat n) g))"

subsection \<open>scipy: the normal density\<close>

text \<open>\<^verbatim>\<open>norm(loc, scale).pdf(x)\<close>.\<close>

definition norm_pdf :: "real \<Rightarrow> real \<Rightarrow> real \<Rightarrow> real" where
  "norm_pdf loc scale x = exp (- (((x - loc) / scale)\<^sup>2) / 2) / sqrt (2 * pi) / scale"

subsection \<open>Keyword arguments and plotly's dictionaries\<close>

datatype pyval =
    PStr string
  | PInt int
  | PNum real
  | PBool bool
  | PArr "real list"
  | PDict "(string \<times> pyval) list"
  | PList "pyval list"

type_synonym dict = "(string \<times> pyval) list"

fun dict_set :: "dict \<Rightarrow> string \<Rightarrow> pyval \<Rightarrow> dict" where
  "dict_set [] k v = [(k, v)]"
| "dict_set ((k', v') # d) k v = (if k' = k then (k, v) # d else (k', v') # dict_set d k v)"

text \<open>\<^verbatim>\<open>d.update(k1=v1, ...)\<close>.\<close>

definition dict_update :: "dict \<Rightarrow> dict \<Rightarrow> dict" where
  "dict_update d kvs = foldl (\<lambda>d' kv. dict_set d' (fst kv) (snd kv)) d kvs"

subsection \<open>scikit-learn: \<^verbatim>\<open>KernelDensity\<close>\<close>

text \<open>
  The constructor of scikit-learn 0.18.1 (the version the notebook prints) takes
  \<^verbatim>\<open>kernel\<close> with default \<^verbatim>\<open>'gaussian'\<close> and \<^verbatim>\<open>bandwidth\<close> with default 1.0, and raises
  ValueError for a bandwidth that is not positive and for a kernel outside its six.
\<close>

record kernel_density =
  kd_kernel :: string
  kd_bandwidth :: real

definition VALID_KERNELS :: "string list" where
  "VALID_KERNELS =
     [''gaussian'', ''tophat'', ''epanechnikov'', ''exponential'', ''linear'', ''cosine'']"

definition KernelDensity :: "dict \<Rightarrow> error + kernel_density" where
  "KernelDensity kw =
     (let bandwidth = (case map_of kw ''bandwidth'' of
                         Some (PNum h) \<Rightarrow> h
                       | Some (PInt i) \<Rightarrow> real_of_int i
                       | _ \<Rightarrow> 1);
          kern = (case map_of kw ''kernel'' of Some (PStr k) \<Rightarrow> k | _ \<Rightarrow> ''gaussian'')
      in if bandwidth \<le> 0 then Inl BandwidthNotPositive
         else if kern \<notin> set VALID_KERNELS then Inl InvalidKernel
         else Inr \<lparr>kd_kernel = kern, kd_bandwidth = bandwidth\<rparr>)"

text \<open>
  \<^verbatim>\<open>fit(X)\<close> keeps the training points. \<^verbatim>\<open>score_samples(Y)\<close> returns one log-density
  for each row of \<open>Y\<close>; the density estimate itself is the parameter \<open>L\<close>: from the
  kernel, the bandwidth, the training points and a query point to the logarithm of the
  estimated density there.
\<close>

type_synonym log_density = "string \<Rightarrow> real \<Rightarrow> real list \<Rightarrow> real \<Rightarrow> logval"

definition fit :: "kernel_density \<Rightarrow> column \<Rightarrow> kernel_density \<times> real list" where
  "fit kd X = (kd, entries X)"

definition score_samples ::
  "log_density \<Rightarrow> kernel_density \<times> real list \<Rightarrow> column \<Rightarrow> logval list" where
  "score_samples L kde Y =
     map (L (kd_kernel (fst kde)) (kd_bandwidth (fst kde)) (snd kde)) (entries Y)"

subsection \<open>plotly: traces, figures, subplot grids\<close>

text \<open>
  A trace is the dictionary of its keyword arguments with its type; a figure is its list
  of traces and its layout dictionary. \<^verbatim>\<open>tools.make_subplots\<close> returns an empty figure
  with a grid of \<open>rows * cols\<close> cells, numbered row by row from the top left, cell \<open>k\<close>
  drawn on the axes \<open>xk\<close>, \<open>yk\<close> and carrying the \<open>k\<close>-th subplot title. (The axis
  domains and the title annotations, which are positions on the page, are left out; the
  grid and the titles are kept as fields. The argument \<^verbatim>\<open>print_grid\<close> only decides
  whether a description of the grid is printed, and is left out too.)
\<close>

definition Scatter :: "dict \<Rightarrow> dict" where
  "Scatter kw = (''type'', PStr ''scatter'') # kw"

definition Histogram :: "dict \<Rightarrow> dict" where
  "Histogram kw = (''type'', PStr ''histogram'') # kw"

definition Layout :: "dict \<Rightarrow> dict" where
  "Layout kw = kw"

record figure =
  fig_data :: "dict list"
  fig_layout :: dict
  grid :: "(int \<times> int) option"
  subplot_titles :: "string list"

definition Figure :: "dict list \<Rightarrow> dict \<Rightarrow> figure" where
  "Figure data layout =
     \<lparr>fig_data = data, fig_layout = layout, grid = None, subplot_titles = []\<rparr>"

definition make_subplots :: "int \<Rightarrow> int \<Rightarrow> string list \<Rightarrow> figure" where
  "make_subplots rows cols titles =
     \<lparr>fig_data = [],
      fig_layout =
        concat (map (\<lambda>k. [(''xaxis'' @ str_int k, PDict [(''anchor'', PStr (''y'' @ str_int k))]),
                           (''yaxis'' @ str_int k, PDict [(''anchor'', PStr (''x'' @ str_int k))])])
                    (py_range 1 (rows * cols + 1) 1)),
      grid = Some (rows, cols),
      subplot_titles = titles\<rparr>"

text \<open>The number of the cell in row \<open>row\<close> and column \<open>col\<close> (both from 1).\<close>

definition cell_number :: "int \<Rightarrow> int \<Rightarrow> int \<Rightarrow> int" where
  "cell_number cols row col = (row - 1) * cols + col"

text \<open>
  \<^verbatim>\<open>fig.append_trace(trace, row, col)\<close>: raises without a grid and for a cell outside
  it; otherwise binds the trace to the axes of the cell and appends it to the data.
\<close>

definition append_trace :: "figure \<Rightarrow> dict \<Rightarrow> int \<Rightarrow> int \<Rightarrow> error + figure" where
  "append_trace fig trace row col =
     (case grid fig of
        None \<Rightarrow> Inl NoSubplotGrid
      | Some (rows, cols) \<Rightarrow>
          if row \<le> 0 then Inl RowOutOfRange
          else if col \<le> 0 then Inl ColOutOfRange
          else if rows < row \<or> cols < col then Inl CellOutOfRange
          else
            let k = str_int (cell_number cols row col)
            in Inr (fig\<lparr>fig_data := fig_data fig @
                      [dict_update trace [(''xaxis'', PStr (''x'' @ k)),
                                          (''yaxis'', PStr (''y'' @ k))]]\<rparr>))"

text \<open>The title above the cell in row \<open>row\<close> and column \<open>col\<close>, when it has one.\<close>

definition subplot_title :: "figure \<Rightarrow> int \<Rightarrow> int \<Rightarrow> string option" where
  "subplot_title fig row col =
     (case grid fig of
        None \<Rightarrow> None
      | Some (rows, cols) \<Rightarrow>
          if 1 \<le> row \<and> row \<le> rows \<and> 1 \<le> col \<and> col \<le> cols \<and>
             nat (cell_number cols row col) \<le> length (subplot_titles fig)
          then Some (subplot_titles fig ! (nat (cell_number cols row col) - 1))
          else None)"

text \<open>\<^verbatim>\<open>fig['layout'].update(...)\<close> and \<^verbatim>\<open>fig['layout'][key].update(...)\<close>.\<close>

definition layout_update :: "figure \<Rightarrow> dict \<Rightarrow> figure" where
  "layout_update fig kvs = fig\<lparr>fig_layout := dict_update (fig_layout fig) kvs\<rparr>"

definition layout_item_update :: "figure \<Rightarrow> string \<Rightarrow> dict \<Rightarrow> figure" where
  "layout_item_update fig key kvs =
     (let old = (case map_of (fig_layout fig) key of Some (PDict d) \<Rightarrow> d | _ \<Rightarrow> [])
      in fig\<lparr>fig_layout := dict_set (fig_layout fig) key (PDict (dict_update old kvs))\<rparr>)"

subsection \<open>The notebook session\<close>

text \<open>
  What a cell leaves behind for the cells after it: the state of the global random
  generator, the variable \<^verbatim>\<open>fig\<close> (unbound at the start), and the charts and HTML
  it has displayed (printed text and warnings are not recorded). The keyword arguments of every \<^verbatim>\<open>KernelDensity(...)\<close> call are logged in \<open>kde_calls\<close>.
  The other variables of a cell are not read by a later cell before it assigns them, and
  are bound by \<open>let\<close>.
\<close>

datatype cell_output = Chart figure | Html string

record 'g session =
  rng :: 'g
  cur_fig :: "figure option"
  kde_calls :: "dict list"
  outputs :: "cell_output list"

text \<open>\<^verbatim>\<open>py.iplot(fig)\<close> renders the figure as the output of the cell.\<close>

definition iplot :: "'g session \<Rightarrow> error + 'g session" where
  "iplot s =
     (case cur_fig s of
        None \<Rightarrow> Inl NameError
      | Some f \<Rightarrow> Inr (s\<lparr>outputs := outputs s @ [Chart f]\<rparr>))"

text \<open>
  The sampling expression of the first and the third figure,
  \<^verbatim>\<open>np.concatenate((np.random.normal(0, 1, 0.3 * N),
                  np.random.normal(5, 1, 0.7 * N)))[:, np.newaxis]\<close>,
  its operands evaluated from left to right on the generator.
\<close>

definition sample_X :: "'g mtrand \<Rightarrow> int \<Rightarrow> 'g \<Rightarrow> error + (column \<times> 'g)" where
  "sample_X R N g =
     bindE (random_normal R 0 1 (float_mul (float_lit 3 10) (float_of_int N)) g) (\<lambda>(a, g1).
     bindE (random_normal R 5 1 (float_mul (float_lit 7 10) (float_of_int N)) g1) (\<lambda>(b, g2).
     Inr (newaxis (a @ b), g2)))"

subsection \<open>Cell: Plot the Progression of Histograms to Kernels\<close>

definition histogram_marker :: dict where
  "histogram_marker =
     [(''color'', PStr ''#AAAAFF''),
      (''line'', PDict [(''color'', PStr ''black''), (''width'', PInt 1)])]"

definition density_line :: dict where
  "density_line = [(''color'', PStr ''#AAAAFF''), (''width'', PInt 2)]"

definition cell_histograms_to_kernels ::
  "'g mtrand \<Rightarrow> log_density \<Rightarrow> 'g session \<Rightarrow> error + 'g session" where
  "cell_histograms_to_kernels R L s =
     (let g0 = rk_seed R 1;
          N = 20
      in
      bindE (sample_X R N g0) (\<lambda>(X, g1).
      let X_plot = newaxis (linspace (- 5) 10 1000);
          bins = 10;
          fig = make_subplots 2 2
                  [''Histogram'', ''Histogram, bins shifted'',
                   ''Tophat Kernel Density'', ''Gaussian Kernel Density'']
      in
      bindE (append_trace fig
               (Histogram [(''x'', PArr (column0 X)), (''nbinsy'', PInt bins),
                           (''marker'', PDict histogram_marker)])
               1 1) (\<lambda>fig.
      bindE (append_trace fig
               (Histogram [(''x'', PArr (column0 X)), (''nbinsy'', PInt (bins + 20)),
                           (''marker'', PDict histogram_marker)])
               1 2) (\<lambda>fig.
      let kw1 = [(''kernel'', PStr ''tophat''), (''bandwidth'', PNum 0.75)] in
      bindE (KernelDensity kw1) (\<lambda>kd.
      let kde = fit kd X;
          log_dens = score_samples L kde X_plot
      in
      bindE (append_trace fig
               (Scatter [(''x'', PArr (column0 X_plot)), (''y'', PArr (map np_exp log_dens)),
                         (''mode'', PStr ''lines''), (''fill'', PStr ''tozeroy''),
                         (''line'', PDict density_line)])
               2 1) (\<lambda>fig.
      let kw2 = [(''kernel'', PStr ''gaussian''), (''bandwidth'', PNum 0.75)] in
      bindE (KernelDensity kw2) (\<lambda>kd.
      let kde = fit kd X;
          log_dens = score_samples L kde X_plot
      in
      bindE (append_trace fig
               (Scatter [(''x'', PArr (column0 X_plot)), (''y'', PArr (map np_exp log_dens)),
                         (''mode'', PStr ''lines''), (''fill'', PStr ''tozeroy''),
                         (''line'', PDict density_line)])
               2 2) (\<lambda>fig.
      let fig = foldl (\<lambda>f i. layout_item_update f (''yaxis'' @ i)
                                 [(''title'', PStr ''Normalized Density'')])
                      fig (map str_int (py_range 1 5 2));
          fig = layout_update fig
                  [(''hovermode'', PStr ''closest''), (''height'', PInt 600),
                   (''showlegend'', PBool False)]
      in iplot (s\<lparr>rng := g1, cur_fig := Some fig,
                   kde_calls := kde_calls s @ [kw1, kw2]\<rparr>)))))))))"

subsection \<open>Cells: Plot all available kernels\<close>

text \<open>
  \<^verbatim>\<open>format_func\<close> is defined by the cell and never called. \<^verbatim>\<open>'%ih' % x\<close> writes the
  integer part of \<open>x\<close>.
\<close>

definition format_func :: "real \<Rightarrow> 'a \<Rightarrow> string" where
  "format_func x loc =
     (if x = 0 then ''0''
      else if x = 1 then ''h''
      else if x = - 1 then ''-h''
      else str_int (if 0 \<le> x then \<lfloor>x\<rfloor> else \<lceil>x\<rceil>) @ ''h'')"

definition kernel_names :: "string list" where
  "kernel_names =
     [''gaussian'', ''tophat'', ''epanechnikov'', ''exponential'', ''linear'', ''cosine'']"

text \<open>
  The loop over \<^verbatim>\<open>enumerate([...])\<close>; \<^verbatim>\<open>i/3\<close> is Python 2's integer division. The
  state of the loop is the figure and the log of estimator calls.
\<close>

fun kernels_loop ::
  "log_density \<Rightarrow> column \<Rightarrow> column \<Rightarrow> (int \<times> string) list \<Rightarrow> figure \<times> dict list
     \<Rightarrow> error + figure \<times> dict list" where
  "kernels_loop L X_plot X_src [] st = Inr st"
| "kernels_loop L X_plot X_src ((i, kern) # rest) st =
     (let kw = [(''kernel'', PStr kern)] in
      bindE (KernelDensity kw) (\<lambda>kd.
      let log_dens = score_samples L (fit kd X_src) X_plot;
          trace = Scatter [(''x'', PArr (column0 X_plot)), (''y'', PArr (map np_exp log_dens)),
                           (''mode'', PStr ''lines''), (''fill'', PStr ''tozeroy''),
                           (''line'', PDict density_line)]
      in
      bindE (append_trace (fst st) trace (i div 3 + 1) (i mod 3 + 1)) (\<lambda>fig.
      kernels_loop L X_plot X_src rest (fig, snd st @ [kw]))))"

definition cell_available_kernels :: "log_density \<Rightarrow> 'g session \<Rightarrow> error + 'g session" where
  "cell_available_kernels L s =
     (let X_plot = newaxis (linspace (- 6) 6 1000);
          X_src = zeros_1_1;
          fig = make_subplots 2 3
                  [''gaussian'', ''tophat'', ''epanechnikov'',
                   ''exponential'', ''linear'', ''cosine'']
      in
      bindE (kernels_loop L X_plot X_src (enumerate_py kernel_names) (fig, kde_calls s))
        (\<lambda>(fig, calls).
      let fig = layout_update fig
                  [(''hovermode'', PStr ''closest''), (''showlegend'', PBool False),
                   (''height'', PInt 600), (''title'', PStr ''Available Kernels'')]
      in Inr (s\<lparr>cur_fig := Some fig, kde_calls := calls\<rparr>)))"

definition cell_iplot :: "'g session \<Rightarrow> error + 'g session" where
  "cell_iplot s = iplot s"

subsection \<open>Cells: Plot a 1D density example\<close>

definition kernel_label :: string where
  "kernel_label = ''kernel = '' @ [CHR 0x27] @ ''{0}'' @ [CHR 0x27]"

fun estimates_loop ::
  "log_density \<Rightarrow> column \<Rightarrow> column \<Rightarrow> string list \<Rightarrow> dict list \<times> dict list
     \<Rightarrow> error + dict list \<times> dict list" where
  "estimates_loop L X_plot X [] st = Inr st"
| "estimates_loop L X_plot X (kern # rest) st =
     (let kw = [(''kernel'', PStr kern), (''bandwidth'', PNum 0.5)] in
      bindE (KernelDensity kw) (\<lambda>kd.
      let kde = fit kd X;
          log_dens = score_samples L kde X_plot;
          trace2 = Scatter [(''x'', PArr (column0 X_plot)), (''y'', PArr (map np_exp log_dens)),
                            (''mode'', PStr ''lines''),
                            (''line'', PDict [(''width'', PInt 2), (''dash'', PStr ''dash'')]),
                            (''name'', PStr (format0 kernel_label kern))]
      in estimates_loop L X_plot X rest (fst st @ [trace2], snd st @ [kw])))"

definition cell_density_example ::
  "'g mtrand \<Rightarrow> log_density \<Rightarrow> 'g session \<Rightarrow> error + 'g session" where
  "cell_density_example R L s =
     (let N = 100;
          g0 = rk_seed R 1;
          data = []
      in
      bindE (sample_X R N g0) (\<lambda>(X, g1).
      let X_plot = newaxis (linspace (- 5) 10 1000);
          true_dens = map (\<lambda>x. 0.3 * norm_pdf 0 1 x + 0.7 * norm_pdf 5 1 x) (column0 X_plot);
          trace1 = Scatter [(''x'', PArr (column0 X_plot)), (''y'', PArr true_dens),
                            (''mode'', PStr ''lines''), (''fill'', PStr ''tozeroy''),
                            (''line'', PDict [(''color'', PStr ''black''), (''width'', PInt 2)]),
                            (''name'', PStr ''input distribution'')];
          data = data @ [trace1]
      in
      bindE (estimates_loop L X_plot X [''gaussian'', ''tophat'', ''epanechnikov'']
               (data, kde_calls s)) (\<lambda>(data, calls).
      bindE (random_random R (shape0 X) g1) (\<lambda>(u, g2).
      let trace3 = Scatter [(''x'', PArr (column0 X)),
                            (''y'', PArr (map (\<lambda>r. - 0.005 - 0.01 * r) u)),
                            (''mode'', PStr ''markers''), (''showlegend'', PBool False),
                            (''marker'', PDict [(''color'', PStr ''black'')])];
          data = data @ [trace3];
          layout = Layout [(''annotations'',
                              PList [PDict [(''x'', PInt 6), (''y'', PNum 0.38),
                                            (''showarrow'', PBool False),
                                            (''text'', PStr (format0 ''N={0} points'' (str_int N)))]]),
                           (''xaxis'', PDict [(''zeroline'', PBool False)]),
                           (''hovermode'', PStr ''closest'')];
          fig = Figure data layout
      in Inr (s\<lparr>rng := g2, cur_fig := Some fig, kde_calls := calls\<rparr>)))))"

subsection \<open>Cell: License, and the whole notebook\<close>

text \<open>
  The last cell displays two HTML style-sheet links (modelled by their addresses) and
  publishes the notebook with \<^verbatim>\<open>publisher.publish\<close>, which displays nothing.
\<close>

definition cell_publish :: "'g session \<Rightarrow> error + 'g session" where
  "cell_publish s =
     Inr (s\<lparr>outputs := outputs s @
            [Html ''//fonts.googleapis.com/css?family=Open+Sans:600,400,300,200|Inconsolata|Ubuntu+Mono:400,700'',
             Html ''http://help.plot.ly/documentation/all_static/css/ipython-notebook-custom.css'']\<rparr>)"

text \<open>
  Running the code cells in order, from a fresh kernel whose random generator is in
  state \<open>g\<close>. (The first two code cells import the libraries and print the
  scikit-learn version.)
\<close>

definition run_notebook :: "'g mtrand \<Rightarrow> log_density \<Rightarrow> 'g \<Rightarrow> error + 'g session" where
  "run_notebook R L g =
     bindE (cell_histograms_to_kernels R L
              \<lparr>rng = g, cur_fig = None, kde_calls = [], outputs = []\<rparr>) (\<lambda>s.
     bindE (cell_available_kernels L s) (\<lambda>s.
     bindE (cell_iplot s) (\<lambda>s.
     bindE (cell_density_example R L s) (\<lambda>s.
     bindE (cell_iplot s) (\<lambda>s.
     cell_publish s)))))"

fun is_chart :: "cell_output \<Rightarrow> bool" where
  "is_chart (Chart f) = True"
| "is_chart (Html h) = False"

fun chart_of :: "cell_output \<Rightarrow> figure option" where
  "chart_of (Chart f) = Some f"
| "chart_of (Html h) = None"

text \<open>The charts a run has displayed, in order.\<close>

definition charts :: "'g session \<Rightarrow> figure list" where
  "charts s = List.map_filter chart_of (outputs s)"

subsection \<open>Reading a run: keyword arguments, traces, cells of a grid\<close>

definition keyword :: "string \<Rightarrow> dict \<Rightarrow> pyval option" where
  "keyword k kw = map_of kw k"

definition passes :: "string \<Rightarrow> dict \<Rightarrow> bool" where
  "passes k kw = (keyword k kw \<noteq> None)"

definition calls_of :: "error + 'g session \<Rightarrow> dict list" where
  "calls_of r = (case r of Inl e \<Rightarrow> [] | Inr s \<Rightarrow> kde_calls s)"

definition trace_x :: "dict \<Rightarrow> real list option" where
  "trace_x t = (case map_of t ''x'' of Some (PArr xs) \<Rightarrow> Some xs | _ \<Rightarrow> None)"

definition trace_y :: "dict \<Rightarrow> real list option" where
  "trace_y t = (case map_of t ''y'' of Some (PArr ys) \<Rightarrow> Some ys | _ \<Rightarrow> None)"




text \<open>A trace whose \<open>y\<close> array has \<open>n\<close> entries, none of them negative.\<close>

definition nonneg_curve :: "nat \<Rightarrow> dict \<Rightarrow> bool" where
  "nonneg_curve n t =
     (case trace_y t of None \<Rightarrow> False | Some ys \<Rightarrow> length ys = n \<and> list_all (\<lambda>y. 0 \<le> y) ys)"

text \<open>The traces of a figure that are drawn in the cell in row \<open>row\<close>, column \<open>col\<close>.\<close>

definition traces_in_cell :: "figure \<Rightarrow> int \<Rightarrow> int \<Rightarrow> dict list" where
  "traces_in_cell fig row col =
     (case grid fig of
        None \<Rightarrow> []
      | Some (rows, cols) \<Rightarrow>
          filter (\<lambda>t. map_of t ''xaxis'' = Some (PStr (''x'' @ str_int (cell_number cols row col))))
                 (fig_data fig))"

text \<open>
  The expression every kernel density trace of the notebook plots,
  \<^verbatim>\<open>np.exp(KernelDensity(kernel, bandwidth).fit(X).score_samples(X_plot))\<close>.
\<close>

definition density_curve :: "log_density \<Rightarrow> string \<Rightarrow> real \<Rightarrow> column \<Rightarrow> column \<Rightarrow> real list" where
  "density_curve L kern h X X_plot =
     map np_exp (score_samples L (fit \<lparr>kd_kernel = kern, kd_bandwidth = h\<rparr> X) X_plot)"

text \<open>
  The kernel density traces of a run: the third and fourth trace of the first chart, the
  six traces of the second, the second to fourth trace of the third.
\<close>

definition kde_curves :: "'g session \<Rightarrow> dict list" where
  "kde_curves s =
     (case charts s of
        [f1, f2, f3] \<Rightarrow>
          take 2 (drop 2 (fig_data f1)) @ fig_data f2 @ take 3 (drop 1 (fig_data f3))
      | _ \<Rightarrow> [])"

subsection \<open>The mixture, as the text describes it\<close>

text \<open>
  A mixture is a list of components (weight, mean, standard deviation). Its density is
  the weighted sum of the normal densities; a sample of size \<open>n\<close> draws, component by
  component, \<open>weight * n\<close> points from the component's normal distribution.
\<close>

definition spec_mixture :: "(real \<times> real \<times> real) list" where
  "spec_mixture = [(0.3, 0, 1), (0.7, 5, 1)]"

definition spec_mixture_pdf :: "(real \<times> real \<times> real) list \<Rightarrow> real \<Rightarrow> real" where
  "spec_mixture_pdf comps x = (\<Sum>(w, mu, sd) \<leftarrow> comps. w * norm_pdf mu sd x)"

fun spec_mixture_sample ::
  "'g mtrand \<Rightarrow> real \<Rightarrow> (real \<times> real \<times> real) list \<Rightarrow> 'g \<Rightarrow> real list \<times> 'g" where
  "spec_mixture_sample R n [] g = ([], g)"
| "spec_mixture_sample R n ((w, mu, sd) # comps) g =
     (case normal_n R mu sd (nat \<lfloor>w * n\<rfloor>) g of
        (a, g1) \<Rightarrow> (case spec_mixture_sample R n comps g1 of (b, g2) \<Rightarrow> (a @ b, g2)))"

subsection \<open>A concrete generator and estimator, for closed instances\<close>

text \<open>
  A generator with one state that always draws 0, and an estimate that is the uniform
  density on \<open>[-6, 6]\<close> whatever the data.
\<close>

definition fixed_mtrand :: "unit mtrand" where
  "fixed_mtrand = \<lparr>rk_seed = (\<lambda>n. ()), rk_gauss = (\<lambda>g. (0, g)), rk_double = (\<lambda>g. (0, g))\<rparr>"

definition flat_density :: log_density where
  "flat_density kern h X x = (if - 6 \<le> x \<and> x \<le> 6 then Finite (- ln 12) else NegInf)"

section \<open>Evaluating the notebook\<close>

declare str_nat.simps [simp del] bit_length.simps [simp del]

lemma bindE_simps [simp]: "bindE (Inl e) f = Inl e" "bindE (Inr x) f = f x"
  by (simp_all add: bindE_def)

subsection \<open>The sample counts\<close>

lemma count_20_03: "int_of_float (float_mul (float_lit 3 10) (float_of_int 20)) = 6"
  by code_simp

lemma count_20_07: "int_of_float (float_mul (float_lit 7 10) (float_of_int 20)) = 14"
  by code_simp

lemma count_100_03: "int_of_float (float_mul (float_lit 3 10) (float_of_int 100)) = 30"
  by code_simp

lemma count_100_07: "int_of_float (float_mul (float_lit 7 10) (float_of_int 100)) = 70"
  by code_simp

lemma length_draws: "length (fst (draws f n g)) = n"
  by (induction n arbitrary: g) (simp_all add: case_prod_beta)

lemma length_normal_n: "length (fst (normal_n R loc scale n g)) = n"
  by (simp add: normal_n_def case_prod_beta length_draws)

lemma sample_X_20:
  "sample_X R 20 g =
     Inr (newaxis (fst (normal_n R 0 1 6 g) @ fst (normal_n R 5 1 14 (snd (normal_n R 0 1 6 g)))),
          snd (normal_n R 5 1 14 (snd (normal_n R 0 1 6 g))))"
  by (simp add: sample_X_def random_normal_def count_20_03 count_20_07 case_prod_beta)

lemma sample_X_100:
  "sample_X R 100 g =
     Inr (newaxis (fst (normal_n R 0 1 30 g) @ fst (normal_n R 5 1 70 (snd (normal_n R 0 1 30 g)))),
          snd (normal_n R 5 1 70 (snd (normal_n R 0 1 30 g))))"
  by (simp add: sample_X_def random_normal_def count_100_03 count_100_07 case_prod_beta)

subsection \<open>Strings and ranges of the cells\<close>

lemma str_int_small:
  "str_int 1 = ''1''" "str_int 2 = ''2''" "str_int 3 = ''3''"
  "str_int 4 = ''4''" "str_int 5 = ''5''" "str_int 6 = ''6''"
  by code_simp+

lemma py_range_vals:
  "py_range 1 5 (Suc 0) = [1, 2, 3, 4]" "py_range 1 7 (Suc 0) = [1, 2, 3, 4, 5, 6]"
  "py_range 1 5 2 = [1, 3]"
  by code_simp+

lemma enum_kernels:
  "enumerate_py kernel_names =
     [(0, ''gaussian''), (1, ''tophat''), (2, ''epanechnikov''),
      (3, ''exponential''), (4, ''linear''), (5, ''cosine'')]"
  by code_simp

lemma enum_kernels_list:
  "enumerate_py [''gaussian'', ''tophat'', ''epanechnikov'', ''exponential'', ''linear'', ''cosine''] =
     [(0, ''gaussian''), (1, ''tophat''), (2, ''epanechnikov''),
      (3, ''exponential''), (4, ''linear''), (5, ''cosine'')]"
  by code_simp

lemma str_int_100: "str_int 100 = ''100''"
  by code_simp

lemma length_linspace: "length (linspace a b n) = n"
  by (simp add: linspace_def)

lemmas lib_defs = make_subplots_def append_trace_def KernelDensity_def VALID_KERNELS_def
  fit_def score_samples_def layout_update_def layout_item_update_def iplot_def
  dict_update_def cell_number_def Scatter_def Histogram_def Layout_def Figure_def
  newaxis_def column0_def shape0_def zeros_1_1_def

lemmas cell_defs = run_notebook_def cell_histograms_to_kernels_def cell_available_kernels_def
  cell_iplot_def cell_density_example_def cell_publish_def

lemmas run_simps = cell_defs sample_X_20 sample_X_100 enum_kernels enum_kernels_list lib_defs str_int_small
  py_range_vals str_int_100 Let_def random_random_def length_normal_n length_linspace
  length_draws case_prod_beta charts_def List.map_filter_simps

subsection \<open>Exponentials are not negative\<close>

lemma np_exp_nonneg: "0 \<le> np_exp v"
  by (cases v) simp_all

lemma nonneg_exp_map: "list_all (\<lambda>y. 0 \<le> y) (map (\<lambda>x. np_exp (f x)) xs)"
  by (simp add: list_all_iff np_exp_nonneg)

lemma nonneg_exp_comp: "list_all (\<lambda>y. 0 \<le> y) (map (np_exp \<circ> f) xs)"
  by (simp add: list_all_iff np_exp_nonneg)

section \<open>The claims\<close>

text \<open>
  In every theorem \<open>R\<close> is the random generator, \<open>L\<close> the density estimate and \<open>g\<close>
  the state of the generator when the notebook starts; all three are arbitrary.
\<close>

text \<open>
  C1. For both figures that sample data, the array \<open>X\<close> is the concatenation of
  \<open>0.3 * N\<close> draws from the normal distribution with mean 0 and standard deviation 1
  and \<open>0.7 * N\<close> draws from the one with mean 5 and standard deviation 1, and it has
  exactly \<open>N\<close> rows: 6 + 14 = 20 for \<open>N = 20\<close> and 30 + 70 = 100 for \<open>N = 100\<close>.
  The counts are computed in floating point, and the four products are exactly the
  doubles 6, 14, 30 and 70, so that the conversion to an integer loses nothing. In a run
  of the notebook, the histogram of the first chart has 20 points and the marker trace
  of the third chart has 100.
\<close>

theorem sample_has_N_rows:
  "(\<exists>a g1 b g2.
      normal_n R 0 1 (nat (int_of_float (float_mul (float_lit 3 10) (float_of_int 20)))) g = (a, g1) \<and>
      normal_n R 5 1 (nat (int_of_float (float_mul (float_lit 7 10) (float_of_int 20)))) g1 = (b, g2) \<and>
      length a = 6 \<and> length b = 14 \<and>
      sample_X R 20 g = Inr (newaxis (a @ b), g2) \<and> shape0 (newaxis (a @ b)) = 20) \<and>
   (\<exists>a g1 b g2.
      normal_n R 0 1 (nat (int_of_float (float_mul (float_lit 3 10) (float_of_int 100)))) g = (a, g1) \<and>
      normal_n R 5 1 (nat (int_of_float (float_mul (float_lit 7 10) (float_of_int 100)))) g1 = (b, g2) \<and>
      length a = 30 \<and> length b = 70 \<and>
      sample_X R 100 g = Inr (newaxis (a @ b), g2) \<and> shape0 (newaxis (a @ b)) = 100) \<and>
   float_mul (float_lit 3 10) (float_of_int 20) = float_of_int 6 \<and>
   float_mul (float_lit 7 10) (float_of_int 20) = float_of_int 14 \<and>
   float_mul (float_lit 3 10) (float_of_int 100) = float_of_int 30 \<and>
   float_mul (float_lit 7 10) (float_of_int 100) = float_of_int 70 \<and>
   (\<exists>s. run_notebook R L g0 = Inr s \<and>
        map (map_option length \<circ> trace_x) (take 1 (fig_data (charts s ! 0))) = [Some 20] \<and>
        map (map_option length \<circ> trace_x) (drop 4 (fig_data (charts s ! 2))) = [Some 100])"
proof -
  have p20: "\<exists>a g1 b g2.
      normal_n R 0 1 (nat (int_of_float (float_mul (float_lit 3 10) (float_of_int 20)))) g = (a, g1) \<and>
      normal_n R 5 1 (nat (int_of_float (float_mul (float_lit 7 10) (float_of_int 20)))) g1 = (b, g2) \<and>
      length a = 6 \<and> length b = 14 \<and>
      sample_X R 20 g = Inr (newaxis (a @ b), g2) \<and> shape0 (newaxis (a @ b)) = 20"
    apply (rule exI [of _ "fst (normal_n R 0 1 6 g)"])
    apply (rule exI [of _ "snd (normal_n R 0 1 6 g)"])
    apply (rule exI [of _ "fst (normal_n R 5 1 14 (snd (normal_n R 0 1 6 g)))"])
    apply (rule exI [of _ "snd (normal_n R 5 1 14 (snd (normal_n R 0 1 6 g)))"])
    apply (simp add: count_20_03 count_20_07 length_normal_n sample_X_20 shape0_def newaxis_def)
    done
  have p100: "\<exists>a g1 b g2.
      normal_n R 0 1 (nat (int_of_float (float_mul (float_lit 3 10) (float_of_int 100)))) g = (a, g1) \<and>
      normal_n R 5 1 (nat (int_of_float (float_mul (float_lit 7 10) (float_of_int 100)))) g1 = (b, g2) \<and>
      length a = 30 \<and> length b = 70 \<and>
      sample_X R 100 g = Inr (newaxis (a @ b), g2) \<and> shape0 (newaxis (a @ b)) = 100"
    apply (rule exI [of _ "fst (normal_n R 0 1 30 g)"])
    apply (rule exI [of _ "snd (normal_n R 0 1 30 g)"])
    apply (rule exI [of _ "fst (normal_n R 5 1 70 (snd (normal_n R 0 1 30 g)))"])
    apply (rule exI [of _ "snd (normal_n R 5 1 70 (snd (normal_n R 0 1 30 g)))"])
    apply (simp add: count_100_03 count_100_07 length_normal_n sample_X_100 shape0_def newaxis_def)
    done
  have f1: "float_mul (float_lit 3 10) (float_of_int 20) = float_of_int 6" by code_simp
  have f2: "float_mul (float_lit 7 10) (float_of_int 20) = float_of_int 14" by code_simp
  have f3: "float_mul (float_lit 3 10) (float_of_int 100) = float_of_int 30" by code_simp
  have f4: "float_mul (float_lit 7 10) (float_of_int 100) = float_of_int 70" by code_simp
  have run: "\<exists>s. run_notebook R L g0 = Inr s \<and>
        map (map_option length \<circ> trace_x) (take 1 (fig_data (charts s ! 0))) = [Some 20] \<and>
        map (map_option length \<circ> trace_x) (drop 4 (fig_data (charts s ! 2))) = [Some 100]"
    by (simp add: run_simps trace_x_def)
  from p20 p100 f1 f2 f3 f4 run show ?thesis by blast
qed

text \<open>
  C2, as the notebook has it. A run makes eleven \<^verbatim>\<open>KernelDensity\<close> calls, and every
  one passes a kernel name. The two calls of the first figure pass \<open>bandwidth=0.75\<close>
  and the three of the third figure \<open>bandwidth=0.5\<close>; the six calls of the kernel
  gallery pass the kernel and nothing else. The estimators the calls construct have the
  bandwidths 0.75, the default 1 of the library for the six of the gallery, and 0.5; and
  the six curves of the second chart are the estimates with bandwidth 1.
\<close>

theorem kde_call_keywords:
  "\<exists>s. run_notebook R L g = Inr s \<and>
       kde_calls s =
         [[(''kernel'', PStr ''tophat''), (''bandwidth'', PNum 0.75)],
          [(''kernel'', PStr ''gaussian''), (''bandwidth'', PNum 0.75)],
          [(''kernel'', PStr ''gaussian'')],
          [(''kernel'', PStr ''tophat'')],
          [(''kernel'', PStr ''epanechnikov'')],
          [(''kernel'', PStr ''exponential'')],
          [(''kernel'', PStr ''linear'')],
          [(''kernel'', PStr ''cosine'')],
          [(''kernel'', PStr ''gaussian''), (''bandwidth'', PNum 0.5)],
          [(''kernel'', PStr ''tophat''), (''bandwidth'', PNum 0.5)],
          [(''kernel'', PStr ''epanechnikov''), (''bandwidth'', PNum 0.5)]] \<and>
       map KernelDensity (kde_calls s) =
         map Inr
           [\<lparr>kd_kernel = ''tophat'', kd_bandwidth = 0.75\<rparr>,
            \<lparr>kd_kernel = ''gaussian'', kd_bandwidth = 0.75\<rparr>,
            \<lparr>kd_kernel = ''gaussian'', kd_bandwidth = 1\<rparr>,
            \<lparr>kd_kernel = ''tophat'', kd_bandwidth = 1\<rparr>,
            \<lparr>kd_kernel = ''epanechnikov'', kd_bandwidth = 1\<rparr>,
            \<lparr>kd_kernel = ''exponential'', kd_bandwidth = 1\<rparr>,
            \<lparr>kd_kernel = ''linear'', kd_bandwidth = 1\<rparr>,
            \<lparr>kd_kernel = ''cosine'', kd_bandwidth = 1\<rparr>,
            \<lparr>kd_kernel = ''gaussian'', kd_bandwidth = 0.5\<rparr>,
            \<lparr>kd_kernel = ''tophat'', kd_bandwidth = 0.5\<rparr>,
            \<lparr>kd_kernel = ''epanechnikov'', kd_bandwidth = 0.5\<rparr>] \<and>
       map trace_y (fig_data (charts s ! 1)) =
         map (\<lambda>k. Some (density_curve L k 1 zeros_1_1 (newaxis (linspace (- 6) 6 1000))))
           kernel_names \<and>
       map (keyword ''kernel'') (kde_calls s) =
         map (\<lambda>k. Some (PStr k))
           ([''tophat'', ''gaussian''] @ kernel_names @ [''gaussian'', ''tophat'', ''epanechnikov'']) \<and>
       map (keyword ''bandwidth'') (kde_calls s) =
         [Some (PNum 0.75), Some (PNum 0.75),
          None, None, None, None, None, None,
          Some (PNum 0.5), Some (PNum 0.5), Some (PNum 0.5)]"
  by (simp add: run_simps keyword_def kernel_names_def trace_y_def density_curve_def)

text \<open>
  C2, as stated (every call passes a bandwidth, the six gallery calls in particular),
  fails: in a run with the concrete generator and estimator, the third to eighth call
  pass none.
\<close>

theorem gallery_calls_pass_no_bandwidth:
  "\<not> list_all (passes ''bandwidth'') (calls_of (run_notebook fixed_mtrand flat_density ())) \<and>
   map (passes ''bandwidth'') (calls_of (run_notebook fixed_mtrand flat_density ())) =
     [True, True, False, False, False, False, False, False, True, True, True]"
  by (simp add: run_simps keyword_def passes_def calls_of_def)

text \<open>
  C3. In every figure and for every kernel, the \<open>y\<close> values of the plotted density
  curve are \<^verbatim>\<open>np.exp\<close> of the log-densities that \<^verbatim>\<open>score_samples\<close> returns on the
  grid, so each of the eleven curves has 1000 values and none of them is negative.
\<close>

theorem density_curves_nonneg:
  "\<exists>s X1 g1 X3 g3.
     run_notebook R L g = Inr s \<and>
     sample_X R 20 (rk_seed R 1) = Inr (X1, g1) \<and>
     sample_X R 100 (rk_seed R 1) = Inr (X3, g3) \<and>
     map trace_y (kde_curves s) =
       map Some
         ([density_curve L ''tophat'' 0.75 X1 (newaxis (linspace (- 5) 10 1000)),
           density_curve L ''gaussian'' 0.75 X1 (newaxis (linspace (- 5) 10 1000))] @
          map (\<lambda>k. density_curve L k 1 zeros_1_1 (newaxis (linspace (- 6) 6 1000))) kernel_names @
          map (\<lambda>k. density_curve L k 0.5 X3 (newaxis (linspace (- 5) 10 1000)))
            [''gaussian'', ''tophat'', ''epanechnikov'']) \<and>
     length (kde_curves s) = 11 \<and>
     list_all (nonneg_curve 1000) (kde_curves s)"
  by (simp add: run_simps kde_curves_def trace_y_def density_curve_def kernel_names_def
        nonneg_curve_def nonneg_exp_comp nonneg_exp_map)

text \<open>
  C4. The second chart has a grid of 2 rows and 3 columns with the six titles
  \<open>gaussian\<close>, \<open>tophat\<close>, \<open>epanechnikov\<close>, \<open>exponential\<close>, \<open>linear\<close>,
  \<open>cosine\<close>, and six traces. For each \<open>i\<close> from 0 to 5, the cell in row
  \<open>i div 3 + 1\<close> and column \<open>i mod 3 + 1\<close> has the \<open>i\<close>-th kernel name as its
  title and holds exactly one trace, the density estimate computed with that kernel.
\<close>

theorem gallery_subplots:
  "\<exists>s f. run_notebook R L g = Inr s \<and> f = charts s ! 1 \<and>
     grid f = Some (2, 3) \<and>
     subplot_titles f =
       [''gaussian'', ''tophat'', ''epanechnikov'', ''exponential'', ''linear'', ''cosine''] \<and>
     length (fig_data f) = 6 \<and>
     map (\<lambda>i. (subplot_title f (i div 3 + 1) (i mod 3 + 1),
               map trace_y (traces_in_cell f (i div 3 + 1) (i mod 3 + 1))))
         [0, 1, 2, 3, 4, 5] =
     map (\<lambda>k. (Some k, [Some (density_curve L k 1 zeros_1_1 (newaxis (linspace (- 6) 6 1000)))]))
         kernel_names"
  by (simp add: run_simps subplot_title_def traces_in_cell_def trace_y_def density_curve_def
        kernel_names_def)

text \<open>
  C6. With \<open>N = 100\<close> the layout of the third chart has one annotation, and its text is
  \<open>N=100 points\<close>, the result of formatting \<open>N\<close> into the template
  \<open>N={0} points\<close>.
\<close>

theorem annotation_text:
  "\<exists>s. run_notebook R L g = Inr s \<and>
       keyword ''annotations'' (fig_layout (charts s ! 2)) =
         Some (PList [PDict [(''x'', PInt 6), (''y'', PNum 0.38), (''showarrow'', PBool False),
                             (''text'', PStr ''N=100 points'')]]) \<and>
       format0 ''N={0} points'' (str_int 100) = ''N=100 points''"
  by (simp add: run_simps keyword_def)

text \<open>
  C7. The sampling cells reseed the generator before they draw, so what they compute does
  not depend on the state the generator was in: two runs of the notebook, started with
  the generator in any two states, end in the same session (the same charts, with the
  same data), and so does each of the two sampling cells on its own.
\<close>

theorem reseeded_run_is_deterministic:
  "run_notebook R L g = run_notebook R L g' \<and>
   cell_histograms_to_kernels R L (s\<lparr>rng := g\<rparr>) = cell_histograms_to_kernels R L (s\<lparr>rng := g'\<rparr>) \<and>
   cell_density_example R L (s\<lparr>rng := g\<rparr>) = cell_density_example R L (s\<lparr>rng := g'\<rparr>)"
  by (simp add: run_notebook_def cell_histograms_to_kernels_def cell_density_example_def)

text \<open>
  C8. A run of the notebook succeeds and displays exactly three charts, one for each
  figure (the 2 by 2 grid, the 2 by 3 grid and the figure without a grid); its two other
  outputs are the style-sheet links of the last cell.
\<close>

theorem three_charts:
  "\<exists>s. run_notebook R L g = Inr s \<and>
       length (charts s) = 3 \<and>
       map is_chart (outputs s) = [True, True, True, False, False] \<and>
       map grid (charts s) = [Some (2, 2), Some (2, 3), None]"
  by (simp add: run_simps)


text \<open>
  C10. The first trace of the third chart, the input distribution, is at every grid point
  the density of the mixture with weights 0.3 and 0.7 of the normal distributions with
  means 0 and 5 and standard deviation 1; the sample \<open>X\<close> of the same cell (the \<open>x\<close>
  of the marker trace) is a sample of size 100 of the same mixture; and the weights sum
  to 1.
\<close>

theorem true_density_is_the_mixture:
  "\<exists>s. run_notebook R L g = Inr s \<and>
     map trace_y (take 1 (fig_data (charts s ! 2))) =
       [Some (map (spec_mixture_pdf spec_mixture) (linspace (- 5) 10 1000))] \<and>
     map trace_x (drop 4 (fig_data (charts s ! 2))) =
       [Some (fst (spec_mixture_sample R 100 spec_mixture (rk_seed R 1)))] \<and>
     sample_X R 100 g' =
       Inr (newaxis (fst (spec_mixture_sample R 100 spec_mixture g')),
            snd (spec_mixture_sample R 100 spec_mixture g')) \<and>
     sum_list (map fst spec_mixture) = 1"
  by (simp add: run_simps trace_x_def trace_y_def spec_mixture_def spec_mixture_pdf_def)

end
